theory Spec2Isabelle
  imports Main
begin

section \<open>Go values\<close>

text \<open>
  A Go slice is either \<open>nil\<close> or holds a sequence of elements; the two are told apart by
  \<open>encoding/json\<close> (a nil slice is written \<open>null\<close>, an empty one \<open>[]\<close>). \<open>None\<close> is the
  nil slice.
\<close>

type_synonym 'a slice = "'a list option"

definition len :: "'a slice \<Rightarrow> nat" where
  "len s = (case s of None \<Rightarrow> 0 | Some xs \<Rightarrow> length xs)"

definition elems :: "'a slice \<Rightarrow> 'a list" where
  "elems s = (case s of None \<Rightarrow> [] | Some xs \<Rightarrow> xs)"

text \<open>\<open>append(s, xs...)\<close>: appending nothing to the nil slice gives the nil slice back.\<close>

definition append_slice :: "'a slice \<Rightarrow> 'a list \<Rightarrow> 'a slice" where
  "append_slice s xs =
     (case s of
        None \<Rightarrow> (if xs = [] then None else Some xs)
      | Some ys \<Rightarrow> Some (ys @ xs))"

text \<open>
  A Go \<open>error\<close> value: its message (\<open>Error()\<close>) and the error it wraps (\<open>errors.Unwrap\<close>).
  \<open>fmt.Errorf\<close> with a format that has no verb makes an error of the message alone; with
  the verb \<open>%w\<close> as its last item it appends the cause's message and keeps the cause in
  the chain; with \<open>%v\<close> it only appends the cause's message.
\<close>

datatype error = Error (msg: string) (Unwrap: "error option")

definition Errorf_plain :: "string \<Rightarrow> error" where
  "Errorf_plain m = Error m None"

definition Errorf_w :: "string \<Rightarrow> error \<Rightarrow> error" where
  "Errorf_w prefix e = Error (prefix @ msg e) (Some e)"

definition Errorf_v :: "string \<Rightarrow> error \<Rightarrow> error" where
  "Errorf_v prefix e = Error (prefix @ msg e) None"

section \<open>The \<open>strings\<close> package\<close>

text \<open>
  The program calls \<open>strings.ReplaceAll(row[0], " ", "")\<close> and
  \<open>strings.Split(rawTags, ",")\<close>: in both the pattern is a string of one byte, and the
  model takes that byte. Go strings are byte sequences, as \<open>string\<close> is here.
\<close>

definition strings_ReplaceAll :: "string \<Rightarrow> char \<Rightarrow> string \<Rightarrow> string" where
  "strings_ReplaceAll s old new = concat (map (\<lambda>c. if c = old then new else [c]) s)"

text \<open>\<open>strings.IndexByte\<close>: the position of the first occurrence, if any.\<close>

fun strings_Index :: "string \<Rightarrow> char \<Rightarrow> nat option" where
  "strings_Index [] sep = None"
| "strings_Index (c # cs) sep =
     (if c = sep then Some 0
      else (case strings_Index cs sep of None \<Rightarrow> None | Some m \<Rightarrow> Some (Suc m)))"

text \<open>
  \<open>strings.Split\<close> (\<open>genSplit\<close> with no limit): cut at the first separator, keep the part
  before it, go on with the part after it; what is left when no separator remains is the
  last element.
\<close>

function strings_Split :: "string \<Rightarrow> char \<Rightarrow> string list" where
  "strings_Split s sep =
     (case strings_Index s sep of
        None \<Rightarrow> [s]
      | Some m \<Rightarrow> take m s # strings_Split (drop (Suc m) s) sep)"
  by pat_completeness auto
termination
proof (relation "measure (\<lambda>(s, sep). length s)")
  show "wf (measure (\<lambda>(s, sep). length s))"
    by simp
next
  fix s :: string and sep m
  assume found: "strings_Index s sep = Some m"
  have "strings_Index t sep = Some k \<Longrightarrow> k < length t" for t k
    by (induction t arbitrary: k) (auto split: if_splits option.splits)
  from this[OF found] show "((drop (Suc m) s, sep), (s, sep)) \<in> measure (\<lambda>(s, sep). length s)"
    by simp
qed

declare strings_Split.simps [simp del]

section \<open>The data model\<close>

text \<open>
  \<open>Quote\<close>, \<open>Metadata\<close> and \<open>QuotesData\<close> of package \<open>utils\<close>. \<open>ID\<close> is an \<open>int64\<close>
  converted from a slice index, which is never negative and below the slice's length, so
  the conversion is exact and the field is an \<open>int\<close> here.
\<close>

record Quote =
  ID :: int
  Text :: string
  Author :: string
  Year :: int
  Context :: string
  Tags :: "string slice"
  Language :: string

record MetadataSchema =
  Format :: string
  Encoding :: string
  FileType :: string

record Metadata =
  Version :: string
  LastUpdated :: string
  TotalQuotes :: int
  URL :: string
  Schema :: MetadataSchema

record QuotesData =
  Quotes :: "Quote slice"

section \<open>The row loop of \<open>ReadExcelFile\<close>\<close>

text \<open>The lines that \<open>log.Printf\<close> writes, one constructor for each call in the program.\<close>

datatype log_event =
    LogOpenError error
  | LogCloseError error
  | LogSkipRow nat "string list"
  | LogWriteError error

definition batchSize :: nat where
  "batchSize = 100"

text \<open>
  The struct literal of the loop body: the fields it does not name (\<open>Author\<close>, \<open>Year\<close>,
  \<open>Context\<close>) hold their zero values. The caller has checked that the row has two cells.
\<close>

definition make_quote :: "nat \<Rightarrow> string list \<Rightarrow> Quote" where
  "make_quote i row =
     (let rawTags = strings_ReplaceAll (row ! 0) (CHR '' '') '''';
          tags = strings_Split rawTags (CHR '','')
      in \<lparr>ID = int i, Text = row ! 1, Author = '''', Year = 0, Context = '''',
          Tags = Some tags, Language = ''en-US''\<rparr>)"

text \<open>The variables the batched loop changes: \<open>batch\<close>, \<open>accumulatedQuotes\<close> and the log.\<close>

record loop_state =
  batch :: "Quote slice"
  accumulatedQuotes :: "Quote slice"
  logged :: "log_event list"

text \<open>One iteration of \<open>for i, row := range rows\<close> in the two-file \<open>ReadExcelFile\<close>.\<close>

definition loop_body :: "nat \<Rightarrow> nat \<Rightarrow> string list \<Rightarrow> loop_state \<Rightarrow> loop_state" where
  "loop_body bs i row st =
     (if i = 0 then st
      else if length row < 2 then st\<lparr>logged := logged st @ [LogSkipRow i row]\<rparr>
      else
        (let quote = make_quote i row;
             batch' = append_slice (batch st) [quote]
         in if len batch' \<ge> bs
            then st\<lparr>batch := None,
                    accumulatedQuotes := append_slice (accumulatedQuotes st) (elems batch')\<rparr>
            else st\<lparr>batch := batch'\<rparr>))"

fun range_rows :: "nat \<Rightarrow> nat \<Rightarrow> string list list \<Rightarrow> loop_state \<Rightarrow> loop_state" where
  "range_rows bs i [] st = st"
| "range_rows bs i (row # rest) st = range_rows bs (Suc i) rest (loop_body bs i row st)"

text \<open>After the loop: the last, incomplete batch is appended when it is not empty.\<close>

definition flush_batch :: "loop_state \<Rightarrow> loop_state" where
  "flush_batch st =
     (if len (batch st) > 0
      then st\<lparr>accumulatedQuotes := append_slice (accumulatedQuotes st) (elems (batch st))\<rparr>
      else st)"

definition accumulate_with :: "nat \<Rightarrow> string list list \<Rightarrow> loop_state" where
  "accumulate_with bs rows =
     flush_batch (range_rows bs 0 rows \<lparr>batch = None, accumulatedQuotes = None, logged = []\<rparr>)"

definition accumulate :: "string list list \<Rightarrow> loop_state" where
  "accumulate rows = accumulate_with batchSize rows"

text \<open>
  The loop of the one-file \<open>ReadExcelFile\<close> (\<open>utils/readFromExcel.go\<close>), which appends each
  quote to \<open>quotes\<close> as it is made and logs nothing.
\<close>

definition legacy_loop_body :: "nat \<Rightarrow> string list \<Rightarrow> Quote slice \<Rightarrow> Quote slice" where
  "legacy_loop_body i row quotes =
     (if i = 0 then quotes
      else if length row < 2 then quotes
      else append_slice quotes [make_quote i row])"

fun legacy_range_rows :: "nat \<Rightarrow> string list list \<Rightarrow> Quote slice \<Rightarrow> Quote slice" where
  "legacy_range_rows i [] quotes = quotes"
| "legacy_range_rows i (row # rest) quotes =
     legacy_range_rows (Suc i) rest (legacy_loop_body i row quotes)"

definition legacy_accumulate :: "string list list \<Rightarrow> Quote slice" where
  "legacy_accumulate rows = legacy_range_rows 0 rows None"

text \<open>
  What the batched loop holds at any moment: the accumulated quotes followed by the open
  batch.
\<close>

definition joined :: "loop_state \<Rightarrow> Quote slice" where
  "joined st = append_slice (accumulatedQuotes st) (elems (batch st))"

section \<open>\<open>encoding/json\<close>\<close>

text \<open>
  The text that \<open>json.MarshalIndent(v, "", indent)\<close> writes for the struct types of the
  program: the value as a tree, then the tree as text. An object's keys are the names of
  the struct tags, written between double quotes as they are. How a string value is
  quoted and escaped (\<open>appendString\<close>) differs between versions of the library, so it is a
  parameter \<open>enc\<close>.
\<close>

datatype json =
    JNull
  | JNumber int
  | JString string
  | JArray "json list"
  | JObject "(string \<times> json) list"

definition digit :: "nat \<Rightarrow> char" where
  "digit d = char_of (48 + d)"

fun digits :: "nat \<Rightarrow> string" where
  "digits n = (if n < 10 then [digit n] else digits (n div 10) @ [digit (n mod 10)])"

declare digits.simps [simp del]

definition itoa :: "int \<Rightarrow> string" where
  "itoa n = (if n < 0 then CHR ''-'' # digits (nat (- n)) else digits (nat n))"

definition dquote :: char where
  "dquote = CHR 0x22"

text \<open>A line break and the indentation of the given depth.\<close>

definition newline :: "string \<Rightarrow> nat \<Rightarrow> string" where
  "newline indent depth = CHR 0x0A # concat (replicate depth indent)"

fun separated :: "string \<Rightarrow> string list \<Rightarrow> string" where
  "separated sep [] = []"
| "separated sep [x] = x"
| "separated sep (x # y # ys) = x @ sep @ separated sep (y # ys)"

fun render :: "(string \<Rightarrow> string) \<Rightarrow> string \<Rightarrow> nat \<Rightarrow> json \<Rightarrow> string" where
  "render enc indent depth JNull = ''null''"
| "render enc indent depth (JNumber n) = itoa n"
| "render enc indent depth (JString s) = enc s"
| "render enc indent depth (JArray xs) =
     (if xs = [] then ''[]''
      else ''['' @ newline indent (Suc depth) @
           separated ('','' @ newline indent (Suc depth))
             (map (render enc indent (Suc depth)) xs) @
           newline indent depth @ '']'')"
| "render enc indent depth (JObject kvs) =
     (if kvs = [] then ''{}''
      else ''{'' @ newline indent (Suc depth) @
           separated ('','' @ newline indent (Suc depth))
             (map (\<lambda>(k, v). dquote # k @ dquote # '': '' @ render enc indent (Suc depth) v) kvs) @
           newline indent depth @ ''}'')"

text \<open>An object's key as it is written, with the colon and the space after it.\<close>

definition key :: "string \<Rightarrow> string" where
  "key k = dquote # k @ dquote # '': ''"

text \<open>A nil slice is written \<open>null\<close>, any other slice as an array.\<close>

definition slice_json :: "('a \<Rightarrow> json) \<Rightarrow> 'a slice \<Rightarrow> json" where
  "slice_json f s = (case s of None \<Rightarrow> JNull | Some xs \<Rightarrow> JArray (map f xs))"

text \<open>
  The fields in the order of the struct; \<open>author\<close>, \<open>year\<close> and \<open>context\<close> are tagged
  \<open>omitempty\<close> and left out when they hold their zero value.
\<close>

definition Quote_json :: "Quote \<Rightarrow> json" where
  "Quote_json q =
     JObject
       ([(''id'', JNumber (ID q)), (''text'', JString (Text q))] @
        (if Author q = '''' then [] else [(''author'', JString (Author q))]) @
        (if Year q = 0 then [] else [(''year'', JNumber (Year q))]) @
        (if Context q = '''' then [] else [(''context'', JString (Context q))]) @
        [(''tags'', slice_json JString (Tags q)), (''lang'', JString (Language q))])"

definition QuotesData_json :: "QuotesData \<Rightarrow> json" where
  "QuotesData_json d = JObject [(''quotes'', slice_json Quote_json (Quotes d))]"

definition Metadata_json :: "Metadata \<Rightarrow> json" where
  "Metadata_json m =
     JObject
       [(''version'', JString (Version m)),
        (''lastUpdated'', JString (LastUpdated m)),
        (''totalQuotes'', JNumber (TotalQuotes m)),
        (''url'', JString (URL m)),
        (''schema'',
           JObject
             [(''format'', JString (Format (Schema m))),
              (''encoding'', JString (Encoding (Schema m))),
              (''filetype'', JString (FileType (Schema m)))])]"

text \<open>
  \<open>json.MarshalIndent\<close> returns the text or an error. For these struct types (strings,
  integers, slices of them) it has no failing case; the callers' error branches are kept
  as the program has them.
\<close>

definition json_MarshalIndent :: "(string \<Rightarrow> string) \<Rightarrow> json \<Rightarrow> string \<Rightarrow> error + string" where
  "json_MarshalIndent enc v indent = Inr (render enc indent 0 v)"

section \<open>The collaborators and the state of the world\<close>

text \<open>
  What \<open>excelize\<close> gives for an opened workbook: \<open>GetSheetList\<close>, \<open>GetRows\<close> and the result
  of \<open>Close\<close>.
\<close>

record workbook =
  sheetList :: "string list"
  getRows :: "string \<Rightarrow> error + string list list"
  closeResult :: "error option"

text \<open>
  \<open>os.WriteFile\<close> opens the file (creating or truncating it), writes the data and closes
  the file; each of the three steps can fail. When opening fails the file system is as
  before; when writing fails after some bytes the file holds those bytes; when closing
  fails the data has been written.
\<close>

datatype fault = OpenFault error | WriteFault nat error | CloseFault error

text \<open>
  What the program does not decide: the result of \<open>excelize.OpenFile\<close> for a path, the
  clock as \<open>time.Now().Format(time.RFC3339)\<close> reads it, which writes fail, and the string
  encoder of \<open>encoding/json\<close>.
\<close>

record env =
  openFile :: "string \<Rightarrow> error + workbook"
  now :: string
  write_fault :: "string \<Rightarrow> fault option"
  encodeString :: "string \<Rightarrow> string"

text \<open>
  What the program changes: the files by path, the log, the standard output, and the
  numbers of workbook handles acquired and released so far. \<open>write_calls\<close> lists the
  paths \<open>os.WriteFile\<close> has been called with, whether the call succeeded or not.
\<close>

record world =
  files :: "string \<rightharpoonup> string"
  write_calls :: "string list"
  logs :: "log_event list"
  stdout :: "string list"
  acquired :: nat
  released :: nat

definition os_WriteFile :: "env \<Rightarrow> string \<Rightarrow> string \<Rightarrow> world \<Rightarrow> error option \<times> world" where
  "os_WriteFile env name data w =
     (let w' = w\<lparr>write_calls := write_calls w @ [name]\<rparr> in
      case write_fault env name of
        None \<Rightarrow> (None, w'\<lparr>files := (files w)(name \<mapsto> data)\<rparr>)
      | Some (OpenFault e) \<Rightarrow> (Some e, w')
      | Some (WriteFault n e) \<Rightarrow> (Some e, w'\<lparr>files := (files w)(name \<mapsto> take n data)\<rparr>)
      | Some (CloseFault e) \<Rightarrow> (Some e, w'\<lparr>files := (files w)(name \<mapsto> data)\<rparr>))"

section \<open>The two-file conversion\<close>

definition WriteJSONToFile :: "env \<Rightarrow> string \<Rightarrow> QuotesData \<Rightarrow> world \<Rightarrow> error option \<times> world" where
  "WriteJSONToFile env filename data w =
     (case json_MarshalIndent (encodeString env) (QuotesData_json data) ''  '' of
        Inl err \<Rightarrow> (Some (Errorf_w ''error marshalling JSON: '' err), w)
      | Inr jsonData \<Rightarrow>
          (case os_WriteFile env filename jsonData w of
             (Some err, w') \<Rightarrow> (Some (Errorf_w ''error writing JSON to file: '' err), w')
           | (None, w') \<Rightarrow> (None, w')))"

text \<open>The metadata literal of \<open>ReadExcelFile\<close> and the three assignments to its schema.\<close>

definition make_metadata :: "env \<Rightarrow> Quote slice \<Rightarrow> Metadata" where
  "make_metadata env accumulated =
     \<lparr>Version = ''1.0'', LastUpdated = now env, TotalQuotes = int (len accumulated),
      URL = ''path/to/file'',
      Schema = \<lparr>Format = ''JSON'', Encoding = ''UTF-8'', FileType = ''text''\<rparr>\<rparr>"

definition ReadExcelFile :: "env \<Rightarrow> workbook \<Rightarrow> world \<Rightarrow> error option \<times> world" where
  "ReadExcelFile env file w =
     (let sheets = sheetList file in
      if length sheets = 0 then (Some (Errorf_plain ''no sheets found in the Excel file''), w)
      else
        (let sheetName = sheets ! 0 in
         case getRows file sheetName of
           Inl err \<Rightarrow> (Some (Errorf_w ''unable to load cells: '' err), w)
         | Inr rows \<Rightarrow>
             (let st = accumulate rows;
                  w1 = w\<lparr>logs := logs w @ logged st\<rparr>;
                  metadata = make_metadata env (accumulatedQuotes st);
                  quotesData = \<lparr>Quotes = accumulatedQuotes st\<rparr>
              in case WriteJSONToFile env ''quotes.json'' quotesData w1 of
                   (Some err, w2) \<Rightarrow> (Some err, w2\<lparr>logs := logs w2 @ [LogWriteError err]\<rparr>)
                 | (None, w2) \<Rightarrow>
                     (case json_MarshalIndent (encodeString env) (Metadata_json metadata) '' '' of
                        Inl err \<Rightarrow>
                          (Some (Errorf_v ''error marshalling metadata to JSON: '' err), w2)
                      | Inr jsonMetadata \<Rightarrow>
                          (case os_WriteFile env ''quotesMetadata.json'' jsonMetadata w2 of
                             (Some err, w3) \<Rightarrow>
                               (Some (Errorf_v ''error writing metadata.json '' err), w3)
                           | (None, w3) \<Rightarrow>
                               (None,
                                w3\<lparr>stdout := stdout w3 @
                                  [''JSON data successfully written to quotes_output.json'']\<rparr>))))))"

definition OpenExcelFile :: "env \<Rightarrow> string \<Rightarrow> world \<Rightarrow> (error + workbook) \<times> world" where
  "OpenExcelFile env fileName w =
     (case openFile env fileName of
        Inl err \<Rightarrow> (Inl (Errorf_w (''failed to open Excel file '' @ fileName @ '': '') err), w)
      | Inr file \<Rightarrow> (Inr file, w\<lparr>acquired := Suc (acquired w)\<rparr>))"

text \<open>
  The deferred function of \<open>ReadQuotesFromExcel\<close>: it runs when the function returns,
  after the result is set, and its \<open>err\<close> is a variable of its own.
\<close>

definition deferred_Close :: "workbook \<Rightarrow> world \<Rightarrow> world" where
  "deferred_Close file w =
     (let w' = w\<lparr>released := Suc (released w)\<rparr> in
      case closeResult file of
        Some err \<Rightarrow> w'\<lparr>logs := logs w' @ [LogCloseError err]\<rparr>
      | None \<Rightarrow> w')"

definition ReadQuotesFromExcel :: "env \<Rightarrow> string \<Rightarrow> world \<Rightarrow> error option \<times> world" where
  "ReadQuotesFromExcel env fileNameValue w =
     (let fileName = fileNameValue in
      case OpenExcelFile env fileName w of
        (Inl err, w0) \<Rightarrow> (Some err, w0\<lparr>logs := logs w0 @ [LogOpenError err]\<rparr>)
      | (Inr file, w0) \<Rightarrow>
          (case ReadExcelFile env file w0 of
             (result, w1) \<Rightarrow> (result, deferred_Close file w1)))"

text \<open>The error that a failed \<open>os.WriteFile\<close> returns.\<close>

definition fault_error :: "fault \<Rightarrow> error" where
  "fault_error f = (case f of OpenFault e \<Rightarrow> e | WriteFault n e \<Rightarrow> e | CloseFault e \<Rightarrow> e)"

text \<open>The two texts the conversion writes.\<close>

definition quotes_text :: "(string \<Rightarrow> string) \<Rightarrow> string list list \<Rightarrow> string" where
  "quotes_text enc rows =
     render enc ''  '' 0 (QuotesData_json \<lparr>Quotes = accumulatedQuotes (accumulate rows)\<rparr>)"

definition metadata_text :: "env \<Rightarrow> string list list \<Rightarrow> string" where
  "metadata_text env rows =
     render (encodeString env) '' '' 0
       (Metadata_json (make_metadata env (accumulatedQuotes (accumulate rows))))"

section \<open>The one-file conversion\<close>

text \<open>
  \<open>utils/readFromExcel.go\<close>: \<open>QuotesData\<close> holds the quotes and the metadata, and
  \<open>ReadExcelFile\<close> writes them as one document to \<open>quotes_output.json\<close>.
\<close>

record legacy_QuotesData =
  legacy_Quotes :: "Quote slice"
  legacy_Metadata :: Metadata

definition legacy_QuotesData_json :: "legacy_QuotesData \<Rightarrow> json" where
  "legacy_QuotesData_json d =
     JObject [(''quotes'', slice_json Quote_json (legacy_Quotes d)),
              (''metadata'', Metadata_json (legacy_Metadata d))]"

definition legacy_WriteJSONToFile ::
    "env \<Rightarrow> string \<Rightarrow> legacy_QuotesData \<Rightarrow> world \<Rightarrow> error option \<times> world" where
  "legacy_WriteJSONToFile env filename data w =
     (case json_MarshalIndent (encodeString env) (legacy_QuotesData_json data) ''  '' of
        Inl err \<Rightarrow> (Some (Errorf_w ''error marshalling JSON: '' err), w)
      | Inr jsonData \<Rightarrow>
          (case os_WriteFile env filename jsonData w of
             (Some err, w') \<Rightarrow> (Some (Errorf_w ''error writing JSON to file: '' err), w')
           | (None, w') \<Rightarrow> (None, w')))"

definition legacy_ReadExcelFile :: "env \<Rightarrow> workbook \<Rightarrow> world \<Rightarrow> error option \<times> world" where
  "legacy_ReadExcelFile env file w =
     (let sheets = sheetList file in
      if length sheets = 0 then (Some (Errorf_plain ''no sheets found in the Excel file''), w)
      else
        (let sheetName = sheets ! 0 in
         case getRows file sheetName of
           Inl err \<Rightarrow> (Some (Errorf_w ''unable to load cells: '' err), w)
         | Inr rows \<Rightarrow>
             (let quotes = legacy_accumulate rows;
                  metadata = make_metadata env quotes;
                  quotesData = \<lparr>legacy_Quotes = quotes, legacy_Metadata = metadata\<rparr>
              in case legacy_WriteJSONToFile env ''quotes_output.json'' quotesData w of
                   (Some err, w1) \<Rightarrow> (Some (Errorf_w ''error writing JSON to file: '' err), w1)
                 | (None, w1) \<Rightarrow>
                     (None,
                      w1\<lparr>stdout := stdout w1 @
                        [''JSON data successfully written to quotes_output.json'']\<rparr>))))"

text \<open>
  \<open>ReadQuotesFromExcel\<close> of the one-file variant calls \<open>log.Fatalf\<close> when opening fails:
  the line is logged and the process exits with status 1, so the \<open>return err\<close> after it
  is never reached. Its deferred \<open>file.Close()\<close> drops the result of \<open>Close\<close>.
\<close>

datatype outcome = Returned "error option" | Exited nat

definition legacy_ReadQuotesFromExcel :: "env \<Rightarrow> string \<Rightarrow> world \<Rightarrow> outcome \<times> world" where
  "legacy_ReadQuotesFromExcel env fileNameValue w =
     (let fileName = fileNameValue in
      case OpenExcelFile env fileName w of
        (Inl err, w0) \<Rightarrow> (Exited 1, w0\<lparr>logs := logs w0 @ [LogOpenError err]\<rparr>)
      | (Inr file, w0) \<Rightarrow>
          (case legacy_ReadExcelFile env file w0 of
             (result, w1) \<Rightarrow> (Returned result, w1\<lparr>released := Suc (released w1)\<rparr>)))"

section \<open>Joining tags\<close>

text \<open>\<open>strings.Join\<close> with a separator of one byte, to say what splitting is the inverse of.\<close>

fun join :: "char \<Rightarrow> string list \<Rightarrow> string" where
  "join sep [] = []"
| "join sep [t] = t"
| "join sep (t # u # ts) = t @ sep # join sep (u # ts)"

section \<open>A workbook, an environment and a world to run the conversion on\<close>

text \<open>
  The rows of the workbook that the repository's test builds
  (\<open>createTestExcelFile\<close>), a workbook of one sheet holding given rows, a string encoder
  for strings in which nothing needs escaping, an environment in which \<open>quotes.xlsx\<close> is
  that workbook, and a world with no files.
\<close>

definition test_rows :: "string list list" where
  "test_rows =
     [[''Tags'', ''Quote''],
      [''inspiration,motivation'', ''Test quote 1''],
      ['''', ''Test quote 2''],
      [''wisdom, life, philosophy'', ''Test quote 3'']]"

definition workbook_of :: "string list list \<Rightarrow> workbook" where
  "workbook_of rows =
     \<lparr>sheetList = [''Sheet1''],
      getRows = (\<lambda>name. if name = ''Sheet1'' then Inr rows
                        else Inl (Error ''sheet does not exist'' None)),
      closeResult = None\<rparr>"

definition quoted :: "string \<Rightarrow> string" where
  "quoted s = dquote # s @ [dquote]"

definition env_with :: "(string \<Rightarrow> fault option) \<Rightarrow> env" where
  "env_with faults =
     \<lparr>openFile = (\<lambda>path. if path = ''quotes.xlsx'' then Inr (workbook_of test_rows)
                         else Inl (Error (''open '' @ path @ '': no such file or directory'') None)),
      now = ''2024-05-01T10:00:00Z'',
      write_fault = faults,
      encodeString = quoted\<rparr>"

definition empty_world :: world where
  "empty_world =
     \<lparr>files = Map.empty, write_calls = [], logs = [], stdout = [], acquired = 0, released = 0\<rparr>"

text \<open>
  File systems that refuse to open one of the two output files for writing; the error is
  a path error that wraps the system's.
\<close>

definition metadata_denied :: "string \<Rightarrow> fault option" where
  "metadata_denied path =
     (if path = ''quotesMetadata.json''
      then Some (OpenFault (Error ''open quotesMetadata.json: permission denied''
                             (Some (Error ''permission denied'' None))))
      else None)"

definition quotes_denied :: "string \<Rightarrow> fault option" where
  "quotes_denied path =
     (if path = ''quotes.json''
      then Some (OpenFault (Error ''open quotes.json: permission denied''
                             (Some (Error ''permission denied'' None))))
      else None)"

text \<open>An environment in which every path opens as a workbook whose \<open>Close\<close> fails.\<close>

definition close_fails :: env where
  "close_fails =
     (env_with (\<lambda>p. None))
       \<lparr>openFile := (\<lambda>path. Inr ((workbook_of test_rows)
                       \<lparr>closeResult := Some (Error ''close failed'' None)\<rparr>))\<rparr>"

section \<open>Contiguous identifiers\<close>

text \<open>
  A sequence of identifiers is contiguous when each one is the one before it plus one: it
  has no gap.
\<close>

fun contiguous :: "int list \<Rightarrow> bool" where
  "contiguous [] = True"
| "contiguous [x] = True"
| "contiguous (x # y # ys) = (y = x + 1 \<and> contiguous (y # ys))"

section \<open>Slices\<close>

lemma append_slice_assoc:
  "append_slice (append_slice s xs) ys = append_slice s (xs @ ys)"
  by (cases s) (auto simp: append_slice_def)

lemma append_slice_Nil: "append_slice s [] = s"
  by (cases s) (auto simp: append_slice_def)

lemma elems_append_slice: "elems (append_slice s xs) = elems s @ xs"
  by (cases s) (auto simp: append_slice_def elems_def)

lemma len_elems: "len s = length (elems s)"
  by (cases s) (auto simp: len_def elems_def)

lemma elems_None: "elems None = []"
  by (simp add: elems_def)

lemma joined_loop_body:
  "joined (loop_body bs i row st) = legacy_loop_body i row (joined st)"
  by (simp add: joined_def loop_body_def legacy_loop_body_def Let_def
      append_slice_assoc append_slice_Nil elems_append_slice elems_None)

lemma joined_range_rows:
  "joined (range_rows bs i rows st) = legacy_range_rows i rows (joined st)"
  by (induction rows arbitrary: i st) (simp_all add: joined_loop_body)

lemma accumulatedQuotes_flush_batch:
  "accumulatedQuotes (flush_batch st) = joined st"
  by (cases "batch st") (auto simp: flush_batch_def joined_def len_def elems_def append_slice_Nil)

lemma accumulate_with_legacy:
  "accumulatedQuotes (accumulate_with bs rows) = legacy_accumulate rows"
proof -
  have "joined \<lparr>batch = None, accumulatedQuotes = None, logged = []\<rparr> = None"
    by (simp add: joined_def elems_None append_slice_Nil)
  then show ?thesis
    by (simp add: accumulate_with_def legacy_accumulate_def accumulatedQuotes_flush_batch
        joined_range_rows)
qed

section \<open>The retained rows\<close>

lemma legacy_range_rows_eq:
  "legacy_range_rows i rows q =
     append_slice q
       (map (\<lambda>j. make_quote (i + j) (rows ! j))
          (filter (\<lambda>j. 1 \<le> i + j \<and> 2 \<le> length (rows ! j)) [0..<length rows]))"
proof (induction rows arbitrary: i q)
  case Nil
  show ?case by (simp add: append_slice_Nil)
next
  case (Cons row rest)
  have upt: "[0..<length (row # rest)] = 0 # map Suc [0..<length rest]"
    by (simp add: upt_conv_Cons map_Suc_upt del: upt_Suc)
  show ?case
    unfolding upt
    by (simp add: Cons.IH legacy_loop_body_def append_slice_assoc append_slice_Nil
        filter_map comp_def not_less)
qed

lemma legacy_accumulate_eq:
  "legacy_accumulate rows =
     append_slice None
       (map (\<lambda>i. make_quote i (rows ! i))
          (filter (\<lambda>i. 1 \<le> i \<and> 2 \<le> length (rows ! i)) [0..<length rows]))"
  by (simp add: legacy_accumulate_def legacy_range_rows_eq)

lemma elems_accumulate:
  "elems (accumulatedQuotes (accumulate rows)) =
     map (\<lambda>i. make_quote i (rows ! i))
       (filter (\<lambda>i. 1 \<le> i \<and> 2 \<le> length (rows ! i)) [0..<length rows])"
  by (simp add: accumulate_def accumulate_with_legacy legacy_accumulate_eq
      elems_append_slice elems_None)

lemma strings_ReplaceAll_empty:
  "strings_ReplaceAll s old [] = filter (\<lambda>c. c \<noteq> old) s"
  by (induction s) (simp_all add: strings_ReplaceAll_def)

lemma strings_Split_not_Nil: "strings_Split s sep \<noteq> []"
  by (subst strings_Split.simps) (simp split: option.splits)

lemma contiguous_nth:
  "contiguous xs \<Longrightarrow> i < length xs \<Longrightarrow> xs ! i = hd xs + int i"
proof (induction xs arbitrary: i rule: contiguous.induct)
  case (3 x y ys)
  note yc = "3.prems"(1)[unfolded contiguous.simps]
  from yc have y: "y = x + 1" by (rule conjunct1)
  from yc have c: "contiguous (y # ys)" by (rule conjunct2)
  show ?case
  proof (cases i)
    case 0
    then show ?thesis by simp
  next
    case (Suc k)
    with "3.prems"(2) have "k < length (y # ys)" by simp
    from "3.IH"[OF c this] have "(y # ys) ! k = y + int k" by simp
    with Suc y show ?thesis by simp
  qed
qed simp_all

lemma contiguous_convex:
  assumes "contiguous xs" "a \<in> set xs" "c \<in> set xs" "a \<le> b" "b \<le> c"
  shows "b \<in> set xs"
proof -
  from assms(2) obtain ia where ia: "ia < length xs" "xs ! ia = a"
    by (auto simp: in_set_conv_nth)
  from assms(3) obtain ic where ic: "ic < length xs" "xs ! ic = c"
    by (auto simp: in_set_conv_nth)
  from contiguous_nth[OF assms(1) ia(1)] ia(2) have a: "a = hd xs + int ia" by simp
  from contiguous_nth[OF assms(1) ic(1)] ic(2) have c: "c = hd xs + int ic" by simp
  define k where "k = nat (b - hd xs)"
  from a assms(4) have kb: "b = hd xs + int k" by (simp add: k_def)
  with c assms(5) have "k \<le> ic" by simp
  with ic(1) have kl: "k < length xs" by simp
  from contiguous_nth[OF assms(1) kl] kb have "xs ! k = b" by simp
  with kl show ?thesis by (metis nth_mem)
qed

lemma convex_contiguous:
  "sorted_wrt (<) xs \<Longrightarrow>
   (\<And>a b c. a \<in> set xs \<Longrightarrow> c \<in> set xs \<Longrightarrow> a < b \<Longrightarrow> b < c \<Longrightarrow> b \<in> set xs) \<Longrightarrow>
   contiguous (map int xs)"
proof (induction xs rule: induct_list012)
  case (3 x y zs)
  from "3.prems"(1) have xy: "x < y" and ys: "\<forall>z\<in>set zs. y < z" and srt: "sorted_wrt (<) (y # zs)"
    by auto
  have "y = Suc x"
  proof (rule ccontr)
    assume "y \<noteq> Suc x"
    with xy have "x < Suc x" "Suc x < y" by auto
    with "3.prems"(2)[of x y "Suc x"] have "Suc x \<in> set (x # y # zs)" by simp
    with ys \<open>Suc x < y\<close> show False by auto
  qed
  moreover have "contiguous (map int (y # zs))"
  proof (rule "3.IH"(2)[OF srt])
    fix a b c assume a: "a \<in> set (y # zs)" and c: "c \<in> set (y # zs)" and ab: "a < b" and bc: "b < c"
    with "3.prems"(2)[of a c b] have "b \<in> set (x # y # zs)" by simp
    moreover from a ys have "y \<le> a" by auto
    ultimately show "b \<in> set (y # zs)" using xy ab by auto
  qed
  ultimately show ?case by simp
qed simp_all

section \<open>Splitting and joining\<close>

lemma strings_Index_None: "strings_Index s sep = None \<longleftrightarrow> sep \<notin> set s"
  by (induction s) (auto split: option.splits)

lemma strings_Index_Some:
  "strings_Index s sep = Some m \<Longrightarrow> s = take m s @ sep # drop (Suc m) s \<and> sep \<notin> set (take m s)"
  by (induction s arbitrary: m) (auto split: if_splits option.splits)

lemma strings_Split_no_sep: "t \<in> set (strings_Split s sep) \<Longrightarrow> sep \<notin> set t"
proof (induction s sep arbitrary: t rule: strings_Split.induct)
  case (1 s sep)
  show ?case
  proof (cases "strings_Index s sep")
    case None
    with "1.prems" have "t = s" by (subst (asm) strings_Split.simps) simp
    with None show ?thesis by (simp add: strings_Index_None)
  next
    case (Some m)
    with "1.prems" have "t = take m s \<or> t \<in> set (strings_Split (drop (Suc m) s) sep)"
      by (subst (asm) strings_Split.simps) simp
    then show ?thesis
    proof
      assume "t = take m s"
      with strings_Index_Some[OF Some] show ?thesis by simp
    next
      assume "t \<in> set (strings_Split (drop (Suc m) s) sep)"
      with "1.IH"[OF Some] show ?thesis .
    qed
  qed
qed

lemma join_Cons: "ts \<noteq> [] \<Longrightarrow> join sep (t # ts) = t @ sep # join sep ts"
  by (cases ts) simp_all

lemma set_join: "t \<in> set ts \<Longrightarrow> set t \<subseteq> set (join sep ts)"
  by (induction sep ts rule: join.induct) auto

lemma join_strings_Split: "join sep (strings_Split s sep) = s"
proof (induction s sep rule: strings_Split.induct)
  case (1 s sep)
  show ?case
  proof (cases "strings_Index s sep")
    case None
    then show ?thesis by (subst strings_Split.simps) simp
  next
    case (Some m)
    have "join sep (strings_Split s sep) =
        take m s @ sep # join sep (strings_Split (drop (Suc m) s) sep)"
      by (subst strings_Split.simps) (simp add: Some join_Cons strings_Split_not_Nil)
    also have "\<dots> = take m s @ sep # drop (Suc m) s"
      by (simp add: "1.IH"[OF Some])
    also have "\<dots> = s"
      using strings_Index_Some[OF Some] by simp
    finally show ?thesis .
  qed
qed

section \<open>Writing files\<close>

lemma os_WriteFile_ok:
  "write_fault env name = None \<Longrightarrow>
   os_WriteFile env name data w =
     (None, w\<lparr>write_calls := write_calls w @ [name], files := (files w)(name \<mapsto> data)\<rparr>)"
  by (simp add: os_WriteFile_def)

lemma os_WriteFile_fails:
  "write_fault env name = Some f \<Longrightarrow> fst (os_WriteFile env name data w) = Some (fault_error f)"
  by (cases f) (simp_all add: os_WriteFile_def fault_error_def)

lemma os_WriteFile_result:
  "fst (os_WriteFile env name data w) = map_option fault_error (write_fault env name)"
  by (cases "write_fault env name") (simp_all add: os_WriteFile_ok os_WriteFile_fails)

lemma os_WriteFile_others:
  "p \<noteq> name \<Longrightarrow> files (snd (os_WriteFile env name data w)) p = files w p"
  by (simp add: os_WriteFile_def Let_def split: option.splits fault.splits)

lemma os_WriteFile_rest:
  "logs (snd (os_WriteFile env name data w)) = logs w \<and>
   stdout (snd (os_WriteFile env name data w)) = stdout w \<and>
   acquired (snd (os_WriteFile env name data w)) = acquired w \<and>
   released (snd (os_WriteFile env name data w)) = released w \<and>
   write_calls (snd (os_WriteFile env name data w)) = write_calls w @ [name]"
  by (simp add: os_WriteFile_def Let_def split: option.splits fault.splits)

lemma ReadExcelFile_no_sheets:
  "sheetList file = [] \<Longrightarrow>
   ReadExcelFile env file w = (Some (Errorf_plain ''no sheets found in the Excel file''), w)"
  by (simp add: ReadExcelFile_def)

lemma ReadExcelFile_rows_error:
  "sheetList file \<noteq> [] \<Longrightarrow> getRows file (sheetList file ! 0) = Inl e \<Longrightarrow>
   ReadExcelFile env file w = (Some (Errorf_w ''unable to load cells: '' e), w)"
  by (simp add: ReadExcelFile_def)

lemma ReadExcelFile_success:
  assumes "sheetList file \<noteq> []" "getRows file (sheetList file ! 0) = Inr rows"
    and "write_fault env ''quotes.json'' = None" "write_fault env ''quotesMetadata.json'' = None"
  shows "ReadExcelFile env file w =
     (None,
      w\<lparr>logs := logs w @ logged (accumulate rows),
        write_calls := write_calls w @ [''quotes.json'', ''quotesMetadata.json''],
        files := (files w)(''quotes.json'' \<mapsto> quotes_text (encodeString env) rows,
                          ''quotesMetadata.json'' \<mapsto> metadata_text env rows),
        stdout := stdout w @ [''JSON data successfully written to quotes_output.json'']\<rparr>)"
  using assms
  by (simp add: ReadExcelFile_def WriteJSONToFile_def json_MarshalIndent_def os_WriteFile_ok
      quotes_text_def metadata_text_def Let_def)

lemma ReadExcelFile_quotes_fault:
  assumes "sheetList file \<noteq> []" "getRows file (sheetList file ! 0) = Inr rows"
    and "write_fault env ''quotes.json'' = Some f"
  shows "fst (ReadExcelFile env file w) =
           Some (Errorf_w ''error writing JSON to file: '' (fault_error f)) \<and>
         write_calls (snd (ReadExcelFile env file w)) = write_calls w @ [''quotes.json''] \<and>
         files (snd (ReadExcelFile env file w)) ''quotesMetadata.json'' =
           files w ''quotesMetadata.json''"
  using assms
  by (cases f)
    (simp_all add: ReadExcelFile_def WriteJSONToFile_def json_MarshalIndent_def os_WriteFile_def
      fault_error_def Let_def)

lemma ReadExcelFile_metadata_fault:
  assumes "sheetList file \<noteq> []" "getRows file (sheetList file ! 0) = Inr rows"
    and "write_fault env ''quotes.json'' = None" "write_fault env ''quotesMetadata.json'' = Some f"
  shows "fst (ReadExcelFile env file w) =
           Some (Errorf_v ''error writing metadata.json '' (fault_error f)) \<and>
         write_calls (snd (ReadExcelFile env file w)) =
           write_calls w @ [''quotes.json'', ''quotesMetadata.json''] \<and>
         files (snd (ReadExcelFile env file w)) ''quotes.json'' =
           Some (quotes_text (encodeString env) rows) \<and>
         files (snd (ReadExcelFile env file w)) ''quotesMetadata.json'' =
           (case f of
              OpenFault e \<Rightarrow> files w ''quotesMetadata.json''
            | WriteFault n e \<Rightarrow> Some (take n (metadata_text env rows))
            | CloseFault e \<Rightarrow> Some (metadata_text env rows))"
  using assms
  by (cases f)
    (simp_all add: ReadExcelFile_def WriteJSONToFile_def json_MarshalIndent_def os_WriteFile_def
      fault_error_def Let_def quotes_text_def metadata_text_def)

lemma ReadExcelFile_None_iff:
  "fst (ReadExcelFile env file w) = None \<longleftrightarrow>
     sheetList file \<noteq> [] \<and> (\<exists>rows. getRows file (sheetList file ! 0) = Inr rows) \<and>
     write_fault env ''quotes.json'' = None \<and> write_fault env ''quotesMetadata.json'' = None"
proof (cases "sheetList file = []")
  case True
  then show ?thesis by (simp add: ReadExcelFile_no_sheets)
next
  case ne: False
  show ?thesis
  proof (cases "getRows file (sheetList file ! 0)")
    case (Inl e)
    with ne show ?thesis by (simp add: ReadExcelFile_rows_error)
  next
    case (Inr rows)
    show ?thesis
    proof (cases "write_fault env ''quotes.json''")
      case (Some f)
      with ne Inr ReadExcelFile_quotes_fault[OF ne Inr Some, of w] show ?thesis by simp
    next
      case qn: None
      show ?thesis
      proof (cases "write_fault env ''quotesMetadata.json''")
        case (Some f)
        with ne Inr qn ReadExcelFile_metadata_fault[OF ne Inr qn Some, of w] show ?thesis by simp
      next
        case None
        with ne Inr qn ReadExcelFile_success[OF ne Inr qn None, of w] show ?thesis by simp
      qed
    qed
  qed
qed

lemma ReadExcelFile_handles:
  "acquired (snd (ReadExcelFile env file w)) = acquired w \<and>
   released (snd (ReadExcelFile env file w)) = released w"
  by (simp add: ReadExcelFile_def WriteJSONToFile_def json_MarshalIndent_def os_WriteFile_def
      Let_def split: sum.splits option.splits fault.splits)

lemma ReadExcelFile_closeResult:
  "ReadExcelFile env (file\<lparr>closeResult := c\<rparr>) w = ReadExcelFile env file w"
  by (simp add: ReadExcelFile_def Let_def)

section \<open>Opening and closing the workbook\<close>

lemma deferred_Close_fields:
  "files (deferred_Close file w) = files w \<and>
   write_calls (deferred_Close file w) = write_calls w \<and>
   stdout (deferred_Close file w) = stdout w \<and>
   acquired (deferred_Close file w) = acquired w \<and>
   released (deferred_Close file w) = Suc (released w) \<and>
   logs (deferred_Close file w) =
     logs w @ (case closeResult file of None \<Rightarrow> [] | Some ce \<Rightarrow> [LogCloseError ce])"
  by (simp add: deferred_Close_def Let_def split: option.splits)

lemma ReadQuotesFromExcel_open_fails:
  "openFile env path = Inl e \<Longrightarrow>
   ReadQuotesFromExcel env path w =
     (Some (Errorf_w (''failed to open Excel file '' @ path @ '': '') e),
      w\<lparr>logs := logs w @ [LogOpenError (Errorf_w (''failed to open Excel file '' @ path @ '': '') e)]\<rparr>)"
  by (simp add: ReadQuotesFromExcel_def OpenExcelFile_def)

lemma ReadQuotesFromExcel_opened:
  "openFile env path = Inr file \<Longrightarrow>
   ReadQuotesFromExcel env path w =
     (fst (ReadExcelFile env file (w\<lparr>acquired := Suc (acquired w)\<rparr>)),
      deferred_Close file (snd (ReadExcelFile env file (w\<lparr>acquired := Suc (acquired w)\<rparr>))))"
  by (simp add: ReadQuotesFromExcel_def OpenExcelFile_def split: prod.splits)

section \<open>No retained row\<close>

lemma accumulate_no_rows:
  assumes "\<forall>i < length rows. i = 0 \<or> length (rows ! i) < 2"
  shows "accumulatedQuotes (accumulate rows) = None"
proof -
  from assms have "filter (\<lambda>i. 1 \<le> i \<and> 2 \<le> length (rows ! i)) [0..<length rows] = []"
    by (auto simp: filter_empty_conv)
  then show ?thesis
    by (simp add: accumulate_def accumulate_with_legacy legacy_accumulate_eq append_slice_def)
qed

lemma render_null_quotes:
  "render enc ''  '' 0 (QuotesData_json \<lparr>Quotes = None\<rparr>) =
     ''{'' @ [CHR 0x0A] @ ''  '' @ [dquote] @ ''quotes'' @ [dquote] @ '': null'' @ [CHR 0x0A] @ ''}''"
  by (simp add: QuotesData_json_def slice_json_def newline_def)

section \<open>The one-file variant at the workbook handle\<close>

lemma legacy_open_failure_exits:
  "openFile env path = Inl e \<Longrightarrow>
   legacy_ReadQuotesFromExcel env path w =
     (Exited 1,
      w\<lparr>logs := logs w @ [LogOpenError (Errorf_w (''failed to open Excel file '' @ path @ '': '') e)]\<rparr>)"
  by (simp add: legacy_ReadQuotesFromExcel_def OpenExcelFile_def)

lemma legacy_close_failure_not_logged:
  "openFile env path = Inr file \<Longrightarrow>
   logs (snd (legacy_ReadQuotesFromExcel env path w)) =
     logs (snd (legacy_ReadExcelFile env file (w\<lparr>acquired := Suc (acquired w)\<rparr>)))"
  by (simp add: legacy_ReadQuotesFromExcel_def OpenExcelFile_def split: prod.splits)

section \<open>The layout of the written text\<close>

lemma render_Metadata_json:
  "render enc '' '' 0 (Metadata_json m) =
     concat
       [''{'', [CHR 0x0A],
        '' '', key ''version'', enc (Version m), '','', [CHR 0x0A],
        '' '', key ''lastUpdated'', enc (LastUpdated m), '','', [CHR 0x0A],
        '' '', key ''totalQuotes'', itoa (TotalQuotes m), '','', [CHR 0x0A],
        '' '', key ''url'', enc (URL m), '','', [CHR 0x0A],
        '' '', key ''schema'', ''{'', [CHR 0x0A],
        ''  '', key ''format'', enc (Format (Schema m)), '','', [CHR 0x0A],
        ''  '', key ''encoding'', enc (Encoding (Schema m)), '','', [CHR 0x0A],
        ''  '', key ''filetype'', enc (FileType (Schema m)), [CHR 0x0A],
        '' }'', [CHR 0x0A],
        ''}'']"
  by (simp add: Metadata_json_def newline_def key_def)

lemma render_Quote_json:
  "render enc ''  '' 2 (Quote_json (make_quote i row)) =
     concat
       [''{'', [CHR 0x0A],
        ''      '', key ''id'', itoa (int i), '','', [CHR 0x0A],
        ''      '', key ''text'', enc (row ! 1), '','', [CHR 0x0A],
        ''      '', key ''tags'',
           render enc ''  '' 3
             (JArray (map JString
                (strings_Split (strings_ReplaceAll (row ! 0) (CHR '' '') '''') (CHR '','')))),
           '','', [CHR 0x0A],
        ''      '', key ''lang'', enc ''en-US'', [CHR 0x0A],
        ''    }'']"
  by (simp add: Quote_json_def make_quote_def Let_def slice_json_def newline_def key_def
      numeral_2_eq_2 numeral_3_eq_3 del: render.simps(4))

section \<open>The claims\<close>

subsection \<open>C1: batching does not change the record sequence\<close>

text \<open>
  C1. For every sequence of rows, the batched accumulation of the two-file \<open>ReadExcelFile\<close>
  (batches of 100, each full batch appended to the accumulated slice, the last incomplete
  batch appended after the loop) gives exactly the slice that the unbatched loop of the
  one-file \<open>ReadExcelFile\<close> gives, the same records in the same order, and is nil exactly
  when that one is. This holds for every batch size, 100 among them.
\<close>

theorem batched_equals_unbatched:
  "accumulatedQuotes (accumulate rows) = legacy_accumulate rows \<and>
   accumulatedQuotes (accumulate_with bs rows) = legacy_accumulate rows"
  by (simp add: accumulate_def accumulate_with_legacy)

text \<open>
  With a batch size of 2 and five rows, one of them skipped, both loops keep rows 1, 2 and
  4. With the batch size of the program and 250 rows of two cells, two full batches are
  appended inside the loop and the last 49 quotes after it; both loops keep rows 1 to 249.
\<close>

theorem batched_equals_unbatched_witness:
  "accumulatedQuotes (accumulate_with 2
      [[''Tags'', ''Quote''], [''a'', ''q1''], [''b'', ''q2''], [''x''], [''c'', ''q4'']])
   = legacy_accumulate
      [[''Tags'', ''Quote''], [''a'', ''q1''], [''b'', ''q2''], [''x''], [''c'', ''q4'']] \<and>
   map ID (elems (legacy_accumulate
      [[''Tags'', ''Quote''], [''a'', ''q1''], [''b'', ''q2''], [''x''], [''c'', ''q4'']]))
   = [1, 2, 4] \<and>
   accumulatedQuotes (accumulate (replicate 250 [''t'', ''q''])) =
     legacy_accumulate (replicate 250 [''t'', ''q'']) \<and>
   map ID (elems (legacy_accumulate (replicate 250 [''t'', ''q'']))) = map int [1..<250] \<and>
   len (batch (accumulate (replicate 250 [''t'', ''q'']))) = 49"
proof -
  have small: "map ID (elems (legacy_accumulate
      [[''Tags'', ''Quote''], [''a'', ''q1''], [''b'', ''q2''], [''x''], [''c'', ''q4'']]))
   = [1, 2, 4]"
    by code_simp
  have large: "map ID (elems (legacy_accumulate (replicate 250 [''t'', ''q'']))) = map int [1..<250]"
    by code_simp
  have last: "len (batch (accumulate (replicate 250 [''t'', ''q'']))) = 49"
    by code_simp
  from batched_equals_unbatched[of
      "[[''Tags'', ''Quote''], [''a'', ''q1''], [''b'', ''q2''], [''x''], [''c'', ''q4'']]" 2]
    batched_equals_unbatched[of "replicate 250 [''t'', ''q'']" 2]
  have "accumulatedQuotes (accumulate_with 2
      [[''Tags'', ''Quote''], [''a'', ''q1''], [''b'', ''q2''], [''x''], [''c'', ''q4'']])
   = legacy_accumulate
      [[''Tags'', ''Quote''], [''a'', ''q1''], [''b'', ''q2''], [''x''], [''c'', ''q4'']]"
    and "accumulatedQuotes (accumulate (replicate 250 [''t'', ''q''])) =
     legacy_accumulate (replicate 250 [''t'', ''q''])"
    by blast+
  with small large last show ?thesis
    by blast
qed

subsection \<open>C2: identifiers are row indices\<close>

text \<open>
  C2, as stated, says that the identifiers of the output are not contiguous as soon as a
  row is skipped for having fewer than 2 cells. A skipped row after the last retained row
  leaves no gap: here the row at index 2 has one cell and is skipped (the log says so),
  and the identifiers are the contiguous sequence \<open>[1]\<close>.
\<close>

theorem ids_not_contiguous_counterexample:
  "length ([[''Tags'', ''Quote''], [''a'', ''q1''], [''x'']] ! 2) < 2 \<and>
   logged (accumulate [[''Tags'', ''Quote''], [''a'', ''q1''], [''x'']]) = [LogSkipRow 2 [''x'']] \<and>
   map ID (elems (accumulatedQuotes (accumulate [[''Tags'', ''Quote''], [''a'', ''q1''], [''x'']]))) = [1] \<and>
   contiguous (map ID (elems (accumulatedQuotes (accumulate [[''Tags'', ''Quote''], [''a'', ''q1''], [''x'']]))))"
  by code_simp

text \<open>
  C2, amended. The identifiers of the output, in order, are the zero-based indices, within
  the full row sequence, of the rows that are retained (index at least 1, at least 2
  cells). They are contiguous exactly when no row with fewer than 2 cells lies between two
  retained rows; so a skipped row between two retained rows makes them not contiguous,
  while a skipped row before the first or after the last retained row does not.
\<close>

theorem ids_are_row_indices:
  "map ID (elems (accumulatedQuotes (accumulate rows))) =
     map int (filter (\<lambda>i. 1 \<le> i \<and> 2 \<le> length (rows ! i)) [0..<length rows]) \<and>
   (contiguous (map ID (elems (accumulatedQuotes (accumulate rows)))) \<longleftrightarrow>
      \<not> (\<exists>i j k. i < j \<and> j < k \<and> k < length rows \<and> 1 \<le> i \<and> 2 \<le> length (rows ! i) \<and>
             length (rows ! j) < 2 \<and> 2 \<le> length (rows ! k)))"
proof -
  let ?kept = "filter (\<lambda>i. 1 \<le> i \<and> 2 \<le> length (rows ! i)) [0..<length rows]"
  let ?gap = "\<exists>i j k. i < j \<and> j < k \<and> k < length rows \<and> 1 \<le> i \<and> 2 \<le> length (rows ! i) \<and>
             length (rows ! j) < 2 \<and> 2 \<le> length (rows ! k)"
  have ids: "map ID (elems (accumulatedQuotes (accumulate rows))) = map int ?kept"
    by (simp add: elems_accumulate make_quote_def comp_def)
  have "\<not> contiguous (map int ?kept)" if ?gap
  proof
    assume c: "contiguous (map int ?kept)"
    from that obtain i j k where g: "i < j" "j < k" "k < length rows" "1 \<le> i"
      "2 \<le> length (rows ! i)" "length (rows ! j) < 2" "2 \<le> length (rows ! k)"
      by blast
    then have "int i \<in> set (map int ?kept)" "int k \<in> set (map int ?kept)" by auto
    from contiguous_convex[OF c this, of "int j"] g(1,2) have "int j \<in> set (map int ?kept)"
      by simp
    then have "j \<in> set ?kept" by auto
    with g(6) show False by simp
  qed
  moreover have "contiguous (map int ?kept)" if ng: "\<not> ?gap"
  proof (rule convex_contiguous)
    show "sorted_wrt (<) ?kept"
      by (rule sorted_wrt_filter) (rule sorted_wrt_upt)
  next
    fix a b c assume a: "a \<in> set ?kept" and c: "c \<in> set ?kept" and ab: "a < b" and bc: "b < c"
    from a c have f: "1 \<le> a" "2 \<le> length (rows ! a)" "c < length rows" "2 \<le> length (rows ! c)"
      by auto
    have "2 \<le> length (rows ! b)"
    proof (rule ccontr)
      assume "\<not> 2 \<le> length (rows ! b)"
      then have "length (rows ! b) < 2" by simp
      with f ab bc have ?gap by blast
      with ng show False by contradiction
    qed
    with f ab bc show "b \<in> set ?kept" by simp
  qed
  ultimately show ?thesis using ids by auto
qed

text \<open>
  A row of one cell between two retained rows: the identifiers are \<open>[1, 3]\<close>, the indices
  of the source rows, and not contiguous.
\<close>

theorem ids_are_row_indices_witness:
  "map ID (elems (accumulatedQuotes (accumulate
      [[''Tags'', ''Quote''], [''a'', ''q1''], [''x''], [''c'', ''q3'']]))) = [1, 3] \<and>
   \<not> contiguous (map ID (elems (accumulatedQuotes (accumulate
      [[''Tags'', ''Quote''], [''a'', ''q1''], [''x''], [''c'', ''q3'']]))))"
proof -
  have "map int (filter (\<lambda>i. 1 \<le> i \<and>
      2 \<le> length ([[''Tags'', ''Quote''], [''a'', ''q1''], [''x''], [''c'', ''q3'']] ! i))
      [0..<length [[''Tags'', ''Quote''], [''a'', ''q1''], [''x''], [''c'', ''q3'']]]) = [1, 3]"
    by code_simp
  with ids_are_row_indices[of "[[''Tags'', ''Quote''], [''a'', ''q1''], [''x''], [''c'', ''q3'']]"]
  show ?thesis by simp
qed

subsection \<open>C3: which rows are retained\<close>

text \<open>
  C3. The records of the output are the quotes made from the rows whose zero-based index is
  at least 1 and which have at least 2 cells, in the order of the rows. So the output has a
  record of identifier \<open>i\<close> if and only if \<open>i\<close> is such an index: the row at index 0 gives
  none whatever it holds, a row with 0 or 1 cells gives none, and every other row gives
  one.
\<close>

theorem retained_rows_iff:
  "elems (accumulatedQuotes (accumulate rows)) =
     map (\<lambda>i. make_quote i (rows ! i))
       (filter (\<lambda>i. 1 \<le> i \<and> 2 \<le> length (rows ! i)) [0..<length rows]) \<and>
   ((\<exists>q \<in> set (elems (accumulatedQuotes (accumulate rows))). ID q = int i) \<longleftrightarrow>
      (1 \<le> i \<and> i < length rows \<and> 2 \<le> length (rows ! i)))"
proof -
  have "ID (make_quote j r) = int j" for j r
    by (simp add: make_quote_def)
  then show ?thesis
    by (auto simp: elems_accumulate)
qed

text \<open>
  For the rows of the repository's test the output has records for rows 1, 2 and 3; there
  is none for the header row 0, and none for the index 4, which is past the end.
\<close>

theorem retained_rows_iff_witness:
  "(\<exists>q \<in> set (elems (accumulatedQuotes (accumulate test_rows))). ID q = 1) \<and>
   (\<exists>q \<in> set (elems (accumulatedQuotes (accumulate test_rows))). ID q = 3) \<and>
   \<not> (\<exists>q \<in> set (elems (accumulatedQuotes (accumulate test_rows))). ID q = 0) \<and>
   \<not> (\<exists>q \<in> set (elems (accumulatedQuotes (accumulate test_rows))). ID q = 4) \<and>
   map Text (elems (accumulatedQuotes (accumulate test_rows))) =
     [''Test quote 1'', ''Test quote 2'', ''Test quote 3'']"
proof -
  have rows: "length test_rows = 4" "length (test_rows ! 1) = 2" "length (test_rows ! 3) = 2"
    by (simp_all add: test_rows_def)
  have kept: "filter (\<lambda>i. 1 \<le> i \<and> 2 \<le> length (test_rows ! i)) [0..<length test_rows] = [1, 2, 3]"
    by code_simp
  have texts: "map (\<lambda>i. Text (make_quote i (test_rows ! i))) [1, 2, 3] =
      [''Test quote 1'', ''Test quote 2'', ''Test quote 3'']"
    by (simp add: make_quote_def test_rows_def Let_def)
  have ident: "ID (make_quote i r) = int i" for i r
    by (simp add: make_quote_def)
  from retained_rows_iff[of test_rows 1] retained_rows_iff[of test_rows 3]
    retained_rows_iff[of test_rows 0] retained_rows_iff[of test_rows 4] rows kept texts
  show ?thesis
    by (simp add: comp_def ident)
qed

subsection \<open>C4: the fields of a record\<close>

text \<open>
  C4. Every record of the output comes from the row whose index is its identifier, a
  retained row. Its tags are the result of splitting, at each comma, cell 0 with every
  space removed. The tags are never empty: there is at least one. Joined with commas they
  give back the cell without its spaces, and no tag holds a comma or a space. The text
  is cell 1 as it is and the language is \<open>en-US\<close>. The cell \<open>inspiration, motivation\<close>
  gives the two tags \<open>inspiration\<close> and \<open>motivation\<close>, and the empty cell gives the one
  empty tag.
\<close>

theorem record_fields_from_row:
  "(\<forall>q \<in> set (elems (accumulatedQuotes (accumulate rows))).
      (let row = rows ! nat (ID q);
           tags = strings_Split (filter (\<lambda>c. c \<noteq> CHR '' '') (row ! 0)) (CHR '','')
       in 1 \<le> nat (ID q) \<and> nat (ID q) < length rows \<and> 2 \<le> length row \<and>
          Tags q = Some tags \<and> tags \<noteq> [] \<and> len (Tags q) \<ge> 1 \<and>
          join (CHR '','') tags = filter (\<lambda>c. c \<noteq> CHR '' '') (row ! 0) \<and>
          (\<forall>t \<in> set tags. CHR '','' \<notin> set t \<and> CHR '' '' \<notin> set t) \<and>
          Text q = row ! 1 \<and> Language q = ''en-US'')) \<and>
   strings_Split (filter (\<lambda>c. c \<noteq> CHR '' '') ''inspiration, motivation'') (CHR '','')
     = [''inspiration'', ''motivation''] \<and>
   strings_Split (filter (\<lambda>c. c \<noteq> CHR '' '') '''') (CHR '','') = ['''']"
proof -
  have ex1: "strings_Split (filter (\<lambda>c. c \<noteq> CHR '' '') ''inspiration, motivation'') (CHR '','')
     = [''inspiration'', ''motivation'']"
    by code_simp
  have ex2: "strings_Split (filter (\<lambda>c. c \<noteq> CHR '' '') '''') (CHR '','') = ['''']"
    by code_simp
  have nosp: "CHR '' '' \<notin> set t"
    if "t \<in> set (strings_Split (filter (\<lambda>c. c \<noteq> CHR '' '') s) (CHR '',''))" for t s
  proof -
    have "set t \<subseteq> set (join (CHR '','') (strings_Split (filter (\<lambda>c. c \<noteq> CHR '' '') s) (CHR '','')))"
      using that by (rule set_join)
    then show ?thesis by (auto simp: join_strings_Split)
  qed
  have "\<forall>q \<in> set (elems (accumulatedQuotes (accumulate rows))).
      (let row = rows ! nat (ID q);
           tags = strings_Split (filter (\<lambda>c. c \<noteq> CHR '' '') (row ! 0)) (CHR '','')
       in 1 \<le> nat (ID q) \<and> nat (ID q) < length rows \<and> 2 \<le> length row \<and>
          Tags q = Some tags \<and> tags \<noteq> [] \<and> len (Tags q) \<ge> 1 \<and>
          join (CHR '','') tags = filter (\<lambda>c. c \<noteq> CHR '' '') (row ! 0) \<and>
          (\<forall>t \<in> set tags. CHR '','' \<notin> set t \<and> CHR '' '' \<notin> set t) \<and>
          Text q = row ! 1 \<and> Language q = ''en-US'')"
    by (auto simp: elems_accumulate make_quote_def Let_def strings_ReplaceAll_empty len_def
        strings_Split_not_Nil join_strings_Split Suc_le_eq
        dest: strings_Split_no_sep nosp)
  with ex1 ex2 show ?thesis by blast
qed

text \<open>
  The third record of the repository's test workbook comes from row 3: tags \<open>wisdom\<close>,
  \<open>life\<close>, \<open>philosophy\<close>. The second comes from a row whose tag cell is empty.
\<close>

theorem record_fields_from_row_witness:
  "elems (accumulatedQuotes (accumulate test_rows)) ! 2 \<in>
     set (elems (accumulatedQuotes (accumulate test_rows))) \<and>
   ID (elems (accumulatedQuotes (accumulate test_rows)) ! 2) = 3 \<and>
   Tags (elems (accumulatedQuotes (accumulate test_rows)) ! 2) =
     Some [''wisdom'', ''life'', ''philosophy''] \<and>
   Text (elems (accumulatedQuotes (accumulate test_rows)) ! 2) = ''Test quote 3'' \<and>
   Language (elems (accumulatedQuotes (accumulate test_rows)) ! 2) = ''en-US'' \<and>
   Tags (elems (accumulatedQuotes (accumulate test_rows)) ! 1) = Some ['''']"
proof -
  let ?recs = "elems (accumulatedQuotes (accumulate test_rows))"
  have ids: "map ID ?recs = [1, 2, 3]"
    by code_simp
  have n: "length ?recs = 3"
    using arg_cong[where f = length, OF ids] by simp
  then have m2: "?recs ! 2 \<in> set ?recs" and m1: "?recs ! 1 \<in> set ?recs"
    by simp_all
  from ids n have id2: "ID (?recs ! 2) = 3" and id1: "ID (?recs ! 1) = 2"
    using nth_map[of 2 ?recs ID] nth_map[of 1 ?recs ID] by simp_all
  have r3: "test_rows ! 3 = [''wisdom, life, philosophy'', ''Test quote 3'']"
    and r2: "test_rows ! 2 = ['''', ''Test quote 2'']"
    by (simp_all add: test_rows_def)
  have s3: "strings_Split (filter (\<lambda>c. c \<noteq> CHR '' '') ''wisdom, life, philosophy'') (CHR '','')
      = [''wisdom'', ''life'', ''philosophy'']"
    by code_simp
  from record_fields_from_row[of test_rows] m2 m1
  have "(let row = test_rows ! nat (ID (?recs ! 2));
           tags = strings_Split (filter (\<lambda>c. c \<noteq> CHR '' '') (row ! 0)) (CHR '','')
         in Tags (?recs ! 2) = Some tags \<and> Text (?recs ! 2) = row ! 1 \<and>
            Language (?recs ! 2) = ''en-US'')"
    and "(let row = test_rows ! nat (ID (?recs ! 1));
           tags = strings_Split (filter (\<lambda>c. c \<noteq> CHR '' '') (row ! 0)) (CHR '','')
         in Tags (?recs ! 1) = Some tags)"
    by (simp_all add: Let_def)
  with id2 id1 r3 r2 s3 record_fields_from_row[of test_rows] m2 show ?thesis
    by (simp add: Let_def)
qed

subsection \<open>C5: the metadata of a successful conversion\<close>

text \<open>
  C5. When \<open>ReadExcelFile\<close> returns no error, the quotes file holds the marshalled quotes
  document of the accumulated records, and the metadata file holds the marshalled metadata
  value with version \<open>1.0\<close>, the clock's reading, url \<open>path/to/file\<close>, the schema
  \<open>JSON\<close>, \<open>UTF-8\<close>, \<open>text\<close>, and as \<open>totalQuotes\<close> the number of records written to the
  quotes file.
\<close>

theorem metadata_matches_quotes:
  assumes "ReadExcelFile env file w = (None, w')"
    and "getRows file (sheetList file ! 0) = Inr rows"
  shows "files w' ''quotes.json'' =
           Some (render (encodeString env) ''  '' 0
             (QuotesData_json \<lparr>Quotes = accumulatedQuotes (accumulate rows)\<rparr>)) \<and>
         files w' ''quotesMetadata.json'' =
           Some (render (encodeString env) '' '' 0
             (Metadata_json
               \<lparr>Version = ''1.0'', LastUpdated = now env,
                TotalQuotes = int (length (elems (accumulatedQuotes (accumulate rows)))),
                URL = ''path/to/file'',
                Schema = \<lparr>Format = ''JSON'', Encoding = ''UTF-8'', FileType = ''text''\<rparr>\<rparr>))"
proof -
  from assms(1) have ok: "fst (ReadExcelFile env file w) = None" by simp
  then have ne: "sheetList file \<noteq> []"
    and q: "write_fault env ''quotes.json'' = None"
    and m: "write_fault env ''quotesMetadata.json'' = None"
    by (simp_all add: ReadExcelFile_None_iff)
  from ReadExcelFile_success[OF ne assms(2) q m, of w] assms(1)
  show ?thesis
    by (auto simp: quotes_text_def metadata_text_def make_metadata_def len_elems)
qed

text \<open>The repository's test workbook: three records, and \<open>totalQuotes\<close> is 3.\<close>

theorem metadata_matches_quotes_witness:
  "fst (ReadExcelFile (env_with (\<lambda>p. None)) (workbook_of test_rows) empty_world) = None \<and>
   map ID (elems (accumulatedQuotes (accumulate test_rows))) = [1, 2, 3] \<and>
   files (snd (ReadExcelFile (env_with (\<lambda>p. None)) (workbook_of test_rows) empty_world))
     ''quotesMetadata.json'' =
     Some (render quoted '' '' 0
       (Metadata_json
         \<lparr>Version = ''1.0'', LastUpdated = ''2024-05-01T10:00:00Z'', TotalQuotes = 3,
          URL = ''path/to/file'',
          Schema = \<lparr>Format = ''JSON'', Encoding = ''UTF-8'', FileType = ''text''\<rparr>\<rparr>))"
proof -
  let ?env = "env_with (\<lambda>p. None)"
  let ?run = "ReadExcelFile ?env (workbook_of test_rows) empty_world"
  have ok: "fst ?run = None"
    by (simp add: ReadExcelFile_None_iff env_with_def workbook_of_def)
  then have run: "?run = (None, snd ?run)"
    by (simp add: prod_eq_iff)
  have rows: "getRows (workbook_of test_rows) (sheetList (workbook_of test_rows) ! 0) = Inr test_rows"
    by (simp add: workbook_of_def)
  have ids: "map ID (elems (accumulatedQuotes (accumulate test_rows))) = [1, 2, 3]"
    by code_simp
  have n: "length (elems (accumulatedQuotes (accumulate test_rows))) = 3"
    using arg_cong[where f = length, OF ids] by simp
  from metadata_matches_quotes[OF run rows] ok ids n show ?thesis
    by (simp add: env_with_def)
qed

subsection \<open>C6: a failed metadata write\<close>

text \<open>
  C6. The quotes file is written and the write of the metadata file is refused. The
  conversion returns an error, the quotes file stays as written and there is no metadata
  file: that much of the claim holds. The error is made with the verb \<open>%v\<close>: its message
  ends with the message of the cause, but it wraps nothing, so the cause cannot be reached
  through \<open>errors.Unwrap\<close>. When the write of the quotes file is refused instead,
  \<open>WriteJSONToFile\<close> uses \<open>%w\<close> and the cause is wrapped.
\<close>

theorem metadata_write_error_not_wrapped:
  "fst (ReadExcelFile (env_with metadata_denied) (workbook_of test_rows) empty_world) =
     Some (Error ''error writing metadata.json open quotesMetadata.json: permission denied'' None) \<and>
   map_option Unwrap
     (fst (ReadExcelFile (env_with metadata_denied) (workbook_of test_rows) empty_world)) =
     Some None \<and>
   files (snd (ReadExcelFile (env_with metadata_denied) (workbook_of test_rows) empty_world))
     ''quotes.json'' = Some (quotes_text quoted test_rows) \<and>
   files (snd (ReadExcelFile (env_with metadata_denied) (workbook_of test_rows) empty_world))
     ''quotesMetadata.json'' = None \<and>
   fst (ReadExcelFile (env_with quotes_denied) (workbook_of test_rows) empty_world) =
     Some (Error ''error writing JSON to file: open quotes.json: permission denied''
       (Some (Error ''open quotes.json: permission denied''
               (Some (Error ''permission denied'' None)))))"
proof -
  have ne: "sheetList (workbook_of test_rows) \<noteq> []"
    by (simp add: workbook_of_def)
  have rows: "getRows (workbook_of test_rows) (sheetList (workbook_of test_rows) ! 0) = Inr test_rows"
    by (simp add: workbook_of_def)
  have q: "write_fault (env_with metadata_denied) ''quotes.json'' = None"
    by (simp add: env_with_def metadata_denied_def)
  have m: "write_fault (env_with metadata_denied) ''quotesMetadata.json'' =
      Some (OpenFault (Error ''open quotesMetadata.json: permission denied''
                             (Some (Error ''permission denied'' None))))"
    by (simp add: env_with_def metadata_denied_def)
  have q': "write_fault (env_with quotes_denied) ''quotes.json'' =
      Some (OpenFault (Error ''open quotes.json: permission denied''
                             (Some (Error ''permission denied'' None))))"
    by (simp add: env_with_def quotes_denied_def)
  from ReadExcelFile_metadata_fault[OF ne rows q m, of empty_world]
    ReadExcelFile_quotes_fault[OF ne rows q', of empty_world]
  show ?thesis
    by (simp add: Errorf_v_def Errorf_w_def fault_error_def empty_world_def env_with_def)
qed

subsection \<open>C7: errors before any write\<close>

text \<open>
  C7. When the workbook has no sheet, \<open>ReadExcelFile\<close> returns the error \<open>no sheets found
  in the Excel file\<close>. When reading the rows of the first sheet fails, it returns an error
  that wraps the cause. In both cases the world is left exactly as it was: no file is
  created or changed, and \<open>os.WriteFile\<close> has not been called.
\<close>

theorem early_errors_write_nothing:
  "(sheetList file = [] \<longrightarrow>
      ReadExcelFile env file w = (Some (Error ''no sheets found in the Excel file'' None), w)) \<and>
   (sheetList file \<noteq> [] \<and> getRows file (sheetList file ! 0) = Inl e \<longrightarrow>
      ReadExcelFile env file w =
        (Some (Error (''unable to load cells: '' @ msg e) (Some e)), w))"
  by (simp add: ReadExcelFile_no_sheets ReadExcelFile_rows_error Errorf_plain_def Errorf_w_def)

text \<open>A workbook without sheets and a workbook whose sheet cannot be read, in a world without files.\<close>

theorem early_errors_write_nothing_witness:
  "ReadExcelFile (env_with (\<lambda>p. None))
      \<lparr>sheetList = [], getRows = (\<lambda>name. Inr test_rows), closeResult = None\<rparr> empty_world =
     (Some (Error ''no sheets found in the Excel file'' None), empty_world) \<and>
   ReadExcelFile (env_with (\<lambda>p. None))
      \<lparr>sheetList = [''Sheet1''], getRows = (\<lambda>name. Inl (Error ''bad sheet'' None)),
       closeResult = None\<rparr> empty_world =
     (Some (Error ''unable to load cells: bad sheet'' (Some (Error ''bad sheet'' None))),
      empty_world) \<and>
   write_calls empty_world = [] \<and> files empty_world = Map.empty"
  using early_errors_write_nothing[of
      "\<lparr>sheetList = [], getRows = (\<lambda>name. Inr test_rows), closeResult = None\<rparr>"
      "env_with (\<lambda>p. None)" empty_world]
    early_errors_write_nothing[of
      "\<lparr>sheetList = [''Sheet1''], getRows = (\<lambda>name. Inl (Error ''bad sheet'' None)),
        closeResult = None\<rparr>"
      "env_with (\<lambda>p. None)" empty_world "Error ''bad sheet'' None"]
  by (simp add: empty_world_def)

subsection \<open>C8: the workbook handle\<close>

text \<open>
  The two-file function. When opening fails, \<open>ReadQuotesFromExcel\<close> logs the error and returns
  it to its caller, wrapping the cause; no handle is acquired and none released. When
  opening succeeds, the result is the result of \<open>ReadExcelFile\<close>, error or not, and it
  is the same whatever \<open>Close\<close> returns; exactly one handle is acquired and exactly one
  released on every path; a failure of \<open>Close\<close> adds one line to the log and changes
  nothing else.
\<close>

theorem ReadQuotesFromExcel_releases_handle:
  "(openFile env path = Inl e \<longrightarrow>
      ReadQuotesFromExcel env path w =
        (Some (Error (''failed to open Excel file '' @ path @ '': '' @ msg e) (Some e)),
         w\<lparr>logs := logs w @
            [LogOpenError
               (Error (''failed to open Excel file '' @ path @ '': '' @ msg e) (Some e))]\<rparr>)) \<and>
   (openFile env path = Inr file \<longrightarrow>
      (let w0 = w\<lparr>acquired := Suc (acquired w)\<rparr>;
           run = ReadExcelFile env file w0;
           out = ReadQuotesFromExcel env path w
       in fst out = fst run \<and>
          fst run = fst (ReadExcelFile env (file\<lparr>closeResult := c\<rparr>) w0) \<and>
          acquired (snd out) = Suc (acquired w) \<and>
          released (snd out) = Suc (released w) \<and>
          files (snd out) = files (snd run) \<and>
          write_calls (snd out) = write_calls (snd run) \<and>
          stdout (snd out) = stdout (snd run) \<and>
          logs (snd out) =
            logs (snd run) @
              (case closeResult file of None \<Rightarrow> [] | Some ce \<Rightarrow> [LogCloseError ce])))"
proof (intro conjI impI)
  assume "openFile env path = Inl e"
  then show "ReadQuotesFromExcel env path w =
        (Some (Error (''failed to open Excel file '' @ path @ '': '' @ msg e) (Some e)),
         w\<lparr>logs := logs w @
            [LogOpenError
               (Error (''failed to open Excel file '' @ path @ '': '' @ msg e) (Some e))]\<rparr>)"
    by (simp add: ReadQuotesFromExcel_open_fails Errorf_w_def)
next
  assume "openFile env path = Inr file"
  then show "let w0 = w\<lparr>acquired := Suc (acquired w)\<rparr>;
           run = ReadExcelFile env file w0;
           out = ReadQuotesFromExcel env path w
       in fst out = fst run \<and>
          fst run = fst (ReadExcelFile env (file\<lparr>closeResult := c\<rparr>) w0) \<and>
          acquired (snd out) = Suc (acquired w) \<and>
          released (snd out) = Suc (released w) \<and>
          files (snd out) = files (snd run) \<and>
          write_calls (snd out) = write_calls (snd run) \<and>
          stdout (snd out) = stdout (snd run) \<and>
          logs (snd out) =
            logs (snd run) @
              (case closeResult file of None \<Rightarrow> [] | Some ce \<Rightarrow> [LogCloseError ce])"
    by (simp add: ReadQuotesFromExcel_opened deferred_Close_fields ReadExcelFile_handles
        ReadExcelFile_closeResult Let_def)
qed

text \<open>
  A path that cannot be opened; and a workbook whose \<open>Close\<close> fails after a successful
  conversion: the result is still success, the handle is released, the failure is logged.
\<close>

theorem ReadQuotesFromExcel_releases_handle_witness:
  "ReadQuotesFromExcel (env_with (\<lambda>p. None)) ''missing.xlsx'' empty_world =
     (Some (Error ''failed to open Excel file missing.xlsx: open missing.xlsx: no such file or directory''
        (Some (Error ''open missing.xlsx: no such file or directory'' None))),
      empty_world\<lparr>logs :=
        [LogOpenError
          (Error ''failed to open Excel file missing.xlsx: open missing.xlsx: no such file or directory''
            (Some (Error ''open missing.xlsx: no such file or directory'' None)))]\<rparr>) \<and>
   fst (ReadQuotesFromExcel close_fails ''quotes.xlsx'' empty_world) = None \<and>
   acquired (snd (ReadQuotesFromExcel close_fails ''quotes.xlsx'' empty_world)) = 1 \<and>
   released (snd (ReadQuotesFromExcel close_fails ''quotes.xlsx'' empty_world)) = 1 \<and>
   logs (snd (ReadQuotesFromExcel close_fails ''quotes.xlsx'' empty_world)) =
     [LogCloseError (Error ''close failed'' None)]"
proof -
  let ?file = "(workbook_of test_rows)\<lparr>closeResult := Some (Error ''close failed'' None)\<rparr>"
  let ?w0 = "empty_world\<lparr>acquired := Suc 0\<rparr>"
  have o1: "openFile (env_with (\<lambda>p. None)) ''missing.xlsx'' =
      Inl (Error ''open missing.xlsx: no such file or directory'' None)"
    by (simp add: env_with_def)
  have o2: "openFile close_fails ''quotes.xlsx'' = Inr ?file"
    by (simp add: close_fails_def)
  have ne: "sheetList ?file \<noteq> []"
    and rows: "getRows ?file (sheetList ?file ! 0) = Inr test_rows"
    by (simp_all add: workbook_of_def)
  have q: "write_fault close_fails ''quotes.json'' = None"
    and m: "write_fault close_fails ''quotesMetadata.json'' = None"
    by (simp_all add: close_fails_def env_with_def)
  have lg: "logged (accumulate test_rows) = []"
    by code_simp
  have ew: "logs empty_world = []" "acquired empty_world = 0" "released empty_world = 0"
    by (simp_all add: empty_world_def)
  note run = ReadExcelFile_success[OF ne rows q m, of ?w0]
  from ReadQuotesFromExcel_releases_handle[of "env_with (\<lambda>p. None)" "''missing.xlsx''"
      "Error ''open missing.xlsx: no such file or directory'' None" empty_world]
    ReadQuotesFromExcel_releases_handle[of close_fails "''quotes.xlsx''" _ empty_world ?file None]
    o1 o2
  show ?thesis
    by (simp add: Let_def run lg ew)
qed

text \<open>
  C8. The claim is about both functions named \<open>ReadQuotesFromExcel\<close>. The two-file one
  does what it says, as the two theorems above show. The one-file one
  (\<open>utils/readFromExcel.go\<close>) does not: given a path that cannot be opened it calls
  \<open>log.Fatalf\<close>, so the process exits with status 1 and the open error is never returned
  to the caller, where the two-file function returns it; and when \<open>Close\<close> fails after a
  conversion, the handle is released but nothing is logged, where the two-file function
  logs the failure.
\<close>

theorem legacy_ReadQuotesFromExcel_exits_on_open_failure:
  "legacy_ReadQuotesFromExcel (env_with (\<lambda>p. None)) ''missing.xlsx'' empty_world =
     (Exited 1,
      empty_world\<lparr>logs :=
        [LogOpenError
          (Error ''failed to open Excel file missing.xlsx: open missing.xlsx: no such file or directory''
            (Some (Error ''open missing.xlsx: no such file or directory'' None)))]\<rparr>) \<and>
   fst (ReadQuotesFromExcel (env_with (\<lambda>p. None)) ''missing.xlsx'' empty_world) =
     Some (Error ''failed to open Excel file missing.xlsx: open missing.xlsx: no such file or directory''
        (Some (Error ''open missing.xlsx: no such file or directory'' None))) \<and>
   fst (legacy_ReadQuotesFromExcel close_fails ''quotes.xlsx'' empty_world) = Returned None \<and>
   released (snd (legacy_ReadQuotesFromExcel close_fails ''quotes.xlsx'' empty_world)) = 1 \<and>
   logs (snd (legacy_ReadQuotesFromExcel close_fails ''quotes.xlsx'' empty_world)) = [] \<and>
   logs (snd (ReadQuotesFromExcel close_fails ''quotes.xlsx'' empty_world)) =
     [LogCloseError (Error ''close failed'' None)]"
proof -
  have o1: "openFile (env_with (\<lambda>p. None)) ''missing.xlsx'' =
      Inl (Error ''open missing.xlsx: no such file or directory'' None)"
    by (simp add: env_with_def)
  have exits: "legacy_ReadQuotesFromExcel (env_with (\<lambda>p. None)) ''missing.xlsx'' empty_world =
     (Exited 1,
      empty_world\<lparr>logs :=
        [LogOpenError
          (Error ''failed to open Excel file missing.xlsx: open missing.xlsx: no such file or directory''
            (Some (Error ''open missing.xlsx: no such file or directory'' None)))]\<rparr>)"
    by (simp add: legacy_open_failure_exits[OF o1] Errorf_w_def empty_world_def)
  have returns: "fst (ReadQuotesFromExcel (env_with (\<lambda>p. None)) ''missing.xlsx'' empty_world) =
     Some (Error ''failed to open Excel file missing.xlsx: open missing.xlsx: no such file or directory''
        (Some (Error ''open missing.xlsx: no such file or directory'' None)))"
    by (simp add: ReadQuotesFromExcel_open_fails[OF o1] Errorf_w_def)
  have legacy: "fst (legacy_ReadQuotesFromExcel close_fails ''quotes.xlsx'' empty_world) = Returned None \<and>
      released (snd (legacy_ReadQuotesFromExcel close_fails ''quotes.xlsx'' empty_world)) = 1 \<and>
      logs (snd (legacy_ReadQuotesFromExcel close_fails ''quotes.xlsx'' empty_world)) = []"
    by (simp add: legacy_ReadQuotesFromExcel_def OpenExcelFile_def legacy_ReadExcelFile_def
        legacy_WriteJSONToFile_def json_MarshalIndent_def os_WriteFile_def close_fails_def
        env_with_def workbook_of_def empty_world_def Let_def)
  have logged: "logs (snd (ReadQuotesFromExcel close_fails ''quotes.xlsx'' empty_world)) =
     [LogCloseError (Error ''close failed'' None)]"
    using ReadQuotesFromExcel_releases_handle_witness by simp
  from exits returns legacy logged show ?thesis
    by simp
qed

subsection \<open>C9: the quotes file is a function of the rows\<close>

text \<open>
  C9. Two successful conversions of the same rows, at different times, from different
  states of the file system, by the same program (the same string encoder), leave the same
  bytes in the quotes file: the text \<open>quotes_text\<close>, which depends on the rows and the
  encoder alone. Their metadata files hold the same metadata value but for \<open>lastUpdated\<close>.
\<close>

theorem quotes_file_deterministic:
  assumes "getRows f1 (sheetList f1 ! 0) = Inr rows"
    and "getRows f2 (sheetList f2 ! 0) = Inr rows"
    and "encodeString e1 = encodeString e2"
    and "fst (ReadExcelFile e1 f1 w1) = None"
    and "fst (ReadExcelFile e2 f2 w2) = None"
  shows "files (snd (ReadExcelFile e1 f1 w1)) ''quotes.json'' =
           files (snd (ReadExcelFile e2 f2 w2)) ''quotes.json'' \<and>
         files (snd (ReadExcelFile e1 f1 w1)) ''quotes.json'' =
           Some (quotes_text (encodeString e1) rows) \<and>
         files (snd (ReadExcelFile e1 f1 w1)) ''quotesMetadata.json'' =
           Some (render (encodeString e1) '' '' 0
             (Metadata_json (make_metadata e1 (accumulatedQuotes (accumulate rows))))) \<and>
         files (snd (ReadExcelFile e2 f2 w2)) ''quotesMetadata.json'' =
           Some (render (encodeString e1) '' '' 0
             (Metadata_json
               ((make_metadata e1 (accumulatedQuotes (accumulate rows)))
                  \<lparr>LastUpdated := now e2\<rparr>)))"
proof -
  have run: "files (snd (ReadExcelFile e f w)) ''quotes.json'' =
        Some (quotes_text (encodeString e) rows) \<and>
      files (snd (ReadExcelFile e f w)) ''quotesMetadata.json'' = Some (metadata_text e rows)"
    if r: "getRows f (sheetList f ! 0) = Inr rows" and ok: "fst (ReadExcelFile e f w) = None"
    for e f w
  proof -
    from ok have ne: "sheetList f \<noteq> []"
      and q: "write_fault e ''quotes.json'' = None"
      and m: "write_fault e ''quotesMetadata.json'' = None"
      by (simp_all add: ReadExcelFile_None_iff)
    show ?thesis
      by (simp add: ReadExcelFile_success[OF ne r q m])
  qed
  have upd: "(make_metadata e1 a)\<lparr>LastUpdated := now e2\<rparr> = make_metadata e2 a" for a
    by (simp add: make_metadata_def)
  from run[OF assms(1,4)] run[OF assms(2,5)] assms(3) show ?thesis
    by (simp add: metadata_text_def upd)
qed

text \<open>
  The conversion run twice on the repository's test workbook, the second run later and
  on the files the first one left: the quotes files are equal and the metadata files
  differ.
\<close>

theorem quotes_file_deterministic_witness:
  "fst (ReadExcelFile (env_with (\<lambda>p. None)) (workbook_of test_rows) empty_world) = None \<and>
   fst (ReadExcelFile ((env_with (\<lambda>p. None))\<lparr>now := ''2031-12-24T18:30:00Z''\<rparr>)
          (workbook_of test_rows)
          (snd (ReadExcelFile (env_with (\<lambda>p. None)) (workbook_of test_rows) empty_world))) = None \<and>
   files (snd (ReadExcelFile (env_with (\<lambda>p. None)) (workbook_of test_rows) empty_world))
     ''quotes.json'' =
   files (snd (ReadExcelFile ((env_with (\<lambda>p. None))\<lparr>now := ''2031-12-24T18:30:00Z''\<rparr>)
          (workbook_of test_rows)
          (snd (ReadExcelFile (env_with (\<lambda>p. None)) (workbook_of test_rows) empty_world))))
     ''quotes.json'' \<and>
   files (snd (ReadExcelFile (env_with (\<lambda>p. None)) (workbook_of test_rows) empty_world))
     ''quotesMetadata.json'' \<noteq>
   files (snd (ReadExcelFile ((env_with (\<lambda>p. None))\<lparr>now := ''2031-12-24T18:30:00Z''\<rparr>)
          (workbook_of test_rows)
          (snd (ReadExcelFile (env_with (\<lambda>p. None)) (workbook_of test_rows) empty_world))))
     ''quotesMetadata.json''"
proof -
  let ?e1 = "env_with (\<lambda>p. None)"
  let ?e2 = "(env_with (\<lambda>p. None))\<lparr>now := ''2031-12-24T18:30:00Z''\<rparr>"
  let ?f = "workbook_of test_rows"
  let ?w2 = "snd (ReadExcelFile ?e1 ?f empty_world)"
  have ne: "sheetList ?f \<noteq> []"
    and rows: "getRows ?f (sheetList ?f ! 0) = Inr test_rows"
    by (simp_all add: workbook_of_def)
  have enc: "encodeString ?e1 = encodeString ?e2"
    by simp
  have q1: "write_fault ?e1 ''quotes.json'' = None"
    and m1: "write_fault ?e1 ''quotesMetadata.json'' = None"
    and q2: "write_fault ?e2 ''quotes.json'' = None"
    and m2: "write_fault ?e2 ''quotesMetadata.json'' = None"
    by (simp_all add: env_with_def)
  have ok1: "fst (ReadExcelFile ?e1 ?f empty_world) = None"
    using ne rows q1 m1 by (simp add: ReadExcelFile_None_iff)
  have ok2: "fst (ReadExcelFile ?e2 ?f ?w2) = None"
    using ne rows q2 m2 by (simp add: ReadExcelFile_None_iff)
  have n: "len (accumulatedQuotes (accumulate test_rows)) = 3"
    by code_simp
  have md: "metadata_text ?e1 test_rows \<noteq> metadata_text ?e2 test_rows"
    by (simp add: metadata_text_def make_metadata_def Metadata_json_def env_with_def quoted_def
        newline_def n)
  from quotes_file_deterministic[OF rows rows enc ok1 ok2] ok1 ok2 md show ?thesis
    by (simp add: ReadExcelFile_success[OF ne rows q1 m1] ReadExcelFile_success[OF ne rows q2 m2])
qed

subsection \<open>C10: no retained row\<close>

text \<open>
  C10. When no row is retained (no rows at all, the header row alone, or every later row
  with fewer than 2 cells), the accumulated slice is nil, a successful conversion
  writes the quotes document with \<open>"quotes": null\<close>, not an empty array, and the metadata
  file has \<open>totalQuotes\<close> 0.
\<close>

theorem no_retained_rows_null:
  assumes "\<forall>i < length rows. i = 0 \<or> length (rows ! i) < 2"
    and "getRows file (sheetList file ! 0) = Inr rows"
    and "fst (ReadExcelFile env file w) = None"
  shows "accumulatedQuotes (accumulate rows) = None \<and>
         files (snd (ReadExcelFile env file w)) ''quotes.json'' =
           Some (''{'' @ [CHR 0x0A] @ ''  '' @ [dquote] @ ''quotes'' @ [dquote] @ '': null'' @
                 [CHR 0x0A] @ ''}'') \<and>
         files (snd (ReadExcelFile env file w)) ''quotesMetadata.json'' =
           Some (render (encodeString env) '' '' 0
             (Metadata_json
               \<lparr>Version = ''1.0'', LastUpdated = now env, TotalQuotes = 0,
                URL = ''path/to/file'',
                Schema = \<lparr>Format = ''JSON'', Encoding = ''UTF-8'', FileType = ''text''\<rparr>\<rparr>))"
proof -
  note nil = accumulate_no_rows[OF assms(1)]
  from assms(3) have ne: "sheetList file \<noteq> []"
    and q: "write_fault env ''quotes.json'' = None"
    and m: "write_fault env ''quotesMetadata.json'' = None"
    by (simp_all add: ReadExcelFile_None_iff)
  show ?thesis
    by (simp add: ReadExcelFile_success[OF ne assms(2) q m] nil quotes_text_def metadata_text_def
        make_metadata_def len_def render_null_quotes)
qed

text \<open>A header row and a row of one cell.\<close>

theorem no_retained_rows_null_witness:
  "fst (ReadExcelFile (env_with (\<lambda>p. None))
          (workbook_of [[''Tags'', ''Quote''], [''only one cell'']]) empty_world) = None \<and>
   files (snd (ReadExcelFile (env_with (\<lambda>p. None))
          (workbook_of [[''Tags'', ''Quote''], [''only one cell'']]) empty_world)) ''quotes.json'' =
     Some (''{'' @ [CHR 0x0A] @ ''  '' @ [dquote] @ ''quotes'' @ [dquote] @ '': null'' @
           [CHR 0x0A] @ ''}'') \<and>
   files (snd (ReadExcelFile (env_with (\<lambda>p. None))
          (workbook_of [[''Tags'', ''Quote''], [''only one cell'']]) empty_world))
     ''quotesMetadata.json'' =
     Some (render quoted '' '' 0
       (Metadata_json
         \<lparr>Version = ''1.0'', LastUpdated = ''2024-05-01T10:00:00Z'', TotalQuotes = 0,
          URL = ''path/to/file'',
          Schema = \<lparr>Format = ''JSON'', Encoding = ''UTF-8'', FileType = ''text''\<rparr>\<rparr>))"
proof -
  let ?rows = "[[''Tags'', ''Quote''], [''only one cell'']]"
  let ?f = "workbook_of ?rows"
  let ?e = "env_with (\<lambda>p. None)"
  have skip: "\<forall>i < length ?rows. i = 0 \<or> length (?rows ! i) < 2"
    by (simp add: less_Suc_eq)
  have ne: "sheetList ?f \<noteq> []"
    and rows: "getRows ?f (sheetList ?f ! 0) = Inr ?rows"
    by (simp_all add: workbook_of_def)
  have ok: "fst (ReadExcelFile ?e ?f empty_world) = None"
    using ne rows by (simp add: ReadExcelFile_None_iff env_with_def)
  from no_retained_rows_null[OF skip rows ok] ok show ?thesis
    by (simp add: env_with_def)
qed

end
